theory Spec2Isabelle
  imports Main
begin

section \<open>The injected Solana provider (provider-solana-new.ts)\<close>

text \<open>
  A shallow embedding of the class \<open>ProviderSolanaInjection\<close>: its private fields are a
  record, every method is a function from the state before to an outcome, the state
  after and the trace of what the method did to its collaborators (public events,
  console warnings, requests handed to the trusted-side client). An \<open>await\<close> is a
  parameter of the method: the notifications the event loop delivered while the method
  was suspended, and how the awaited promise settled.
\<close>

subsection \<open>Values that cross the message boundary\<close>

text \<open>A JavaScript value that is either a string or \<open>undefined\<close>.\<close>

type_synonym jsstr = "string option"

text \<open>
  The enum \<open>Blockchain\<close>, the channel tags and the event names are constants of
  \<open>@coral-xyz/common\<close>. Their string values are declared outside the files at hand; the
  code only compares them for equality, so each constant is a constructor of its own and
  the last constructor stands for every other string.
\<close>

datatype blockchain = SOLANA | ETHEREUM | OtherBlockchain string

datatype channel =
    CHANNEL_SOLANA_NOTIFICATION
  | CHANNEL_PLUGIN_NOTIFICATION
  | OtherChannel string

datatype event_name =
    NOTIFICATION_SOLANA_CONNECTED
  | NOTIFICATION_SOLANA_DISCONNECTED
  | NOTIFICATION_CONNECTION_URL_UPDATED
  | NOTIFICATION_ACTIVE_WALLET_UPDATED
  | PLUGIN_NOTIFICATION_CONNECT
  | PLUGIN_NOTIFICATION_MOUNT
  | PLUGIN_NOTIFICATION_UPDATE_METADATA
  | PLUGIN_NOTIFICATION_UNMOUNT
  | PLUGIN_NOTIFICATION_CONNECTION_URL_UPDATED
  | PLUGIN_NOTIFICATION_SOLANA_PUBLIC_KEY_UPDATED
  | UnrecognizedName string

text \<open>
  \<open>event.data.detail.data\<close> is untyped (\<open>Event\<close> is \<open>any\<close>): the payload is an object
  of which the handlers read six properties, each of which may be missing. The two
  tables of a plugin-connect payload are objects indexed by blockchain.
\<close>

record payload =
  data_blockchain :: "blockchain option"
  data_url :: jsstr
  data_activeWallet :: jsstr
  data_publicKey :: jsstr
  data_publicKeys :: "(blockchain \<times> string) list option"
  data_connectionUrls :: "(blockchain \<times> string) list option"

text \<open>\<open>event.data.detail\<close>: the event name and the payload (\<open>None\<close> when undefined).\<close>

record detail =
  detail_name :: event_name
  detail_data :: "payload option"

text \<open>
  \<open>event.data\<close> when it is an object: its \<open>type\<close> (a missing or foreign tag is an
  \<open>OtherChannel\<close>: it differs from both notification channels) and its \<open>detail\<close>
  (\<open>None\<close> when undefined).
\<close>

record message_data =
  msg_type :: channel
  msg_detail :: "detail option"

text \<open>
  The message event: what \<open>isValidEventOrigin\<close> looks at (an opaque token here) and
  \<open>event.data\<close>, which is \<open>None\<close> when the sender posted \<open>null\<close> or
  \<open>undefined\<close>.
\<close>

record event =
  ev_origin :: string
  ev_data :: "message_data option"

subsection \<open>Errors and outcomes\<close>

datatype error = Error string | TypeError string | Rejection string

datatype 'a outcome = Returns 'a | Throws error

subsection \<open>The objects the provider holds\<close>

text \<open>
  \<open>#publicKey\<close> holds a \<open>PublicKey\<close> object, or the raw value a plugin notification
  carried (\<open>#handlePluginPublicKeyUpdated\<close> stores it as it came).
\<close>

datatype key_value = PublicKey string | RawKey string

text \<open>
  A \<open>Connection\<close> of \<open>@solana/web3.js\<close>, or a \<open>BackgroundSolanaConnection\<close> over
  \<open>#connectionRequestManager\<close> (always the same manager); each with the URL it was
  constructed with.
\<close>

datatype connection = Connection string | BackgroundSolanaConnection jsstr

text \<open>
  A \<open>SolanaClient\<close> over \<open>#secureClientSender\<close> (always the same sender) and the
  connection it was constructed with.
\<close>

datatype client = SolanaClient connection

record secureEventOrigin =
  origin_context :: string
  origin_name :: string
  origin_address :: string

record state =
  isBackpack :: bool
  isConnected :: bool
  isXnft :: "bool option"
  publicKey :: "key_value option"
  connection :: connection
  secureSolanaClient :: client
  secureClientOrigin :: secureEventOrigin

text \<open>
  What the file takes from outside: \<open>isValidEventOrigin\<close> (imported from the package
  index), the URL \<open>process.env.DEFAULT_SOLANA_CONNECTION_URL || DEFAULT_SOLANA_CLUSTER\<close>,
  which inputs the constructors of \<open>PublicKey\<close>, \<open>Connection\<close> and
  \<open>BackgroundSolanaConnection\<close> accept (they throw on the others), and the page's
  \<open>document.title\<close> and \<open>window.location.origin\<close>.
\<close>

record env =
  isValidEventOrigin :: "event \<Rightarrow> bool"
  defaultConnectionUrl :: string
  PublicKey_accepts :: "string \<Rightarrow> bool"
  Connection_accepts :: "string \<Rightarrow> bool"
  BackgroundSolanaConnection_accepts :: "jsstr \<Rightarrow> bool"
  document_title :: string
  window_location_origin :: string

subsection \<open>What a method does to its collaborators\<close>

type_synonym transaction = string
type_synonym signers = "string list"
type_synonym options = string
type_synonym commitment = string
type_synonym bytes = "nat list"

text \<open>The argument object of a call on the trusted-side client.\<close>

datatype request =
    SendAndConfirm key_value transaction "signers option" "options option" "connection option"
  | Send key_value transaction "signers option" "options option" "connection option"
  | SignTransaction key_value transaction "connection option"
  | SignAllTransactions key_value "transaction list" "connection option"
  | SignMessage key_value bytes
  | PrepareSolanaOffchainMessage bytes string nat

datatype effect =
    Debug event
  | Emit string detail
  | Warn string
  | ClientConnect client
  | ClientDisconnect client
  | ClientCall client request
  | CmnSimulate key_value connection transaction "signers option" "commitment option"
  | OpenXnftRequest string

type_synonym 'a result = "'a outcome \<times> state \<times> effect list"

definition outcome_of :: "'a result \<Rightarrow> 'a outcome" where
  "outcome_of r = fst r"

definition state_of :: "'a result \<Rightarrow> state" where
  "state_of r = fst (snd r)"

definition effects_of :: "'a result \<Rightarrow> effect list" where
  "effects_of r = snd (snd r)"

subsection \<open>Constructors\<close>

text \<open>\<open>new PublicKey(x)\<close>: throws on \<open>undefined\<close> and on a string it does not accept.\<close>

definition new_PublicKey :: "env \<Rightarrow> jsstr \<Rightarrow> error + key_value" where
  "new_PublicKey e x =
     (case x of
        None \<Rightarrow> Inl (TypeError ''PublicKey: undefined input'')
      | Some s \<Rightarrow>
          if PublicKey_accepts e s then Inr (PublicKey s)
          else Inl (Error ''Invalid public key input''))"

text \<open>\<open>new Connection(x)\<close>: throws on \<open>undefined\<close> and on an endpoint it does not accept.\<close>

definition new_Connection :: "env \<Rightarrow> jsstr \<Rightarrow> error + connection" where
  "new_Connection e x =
     (case x of
        None \<Rightarrow> Inl (TypeError ''Connection: undefined endpoint'')
      | Some s \<Rightarrow>
          if Connection_accepts e s then Inr (Connection s)
          else Inl (TypeError ''Connection: invalid endpoint''))"

text \<open>\<open>new BackgroundSolanaConnection(this.#connectionRequestManager, x)\<close>.\<close>

definition new_BackgroundSolanaConnection :: "env \<Rightarrow> jsstr \<Rightarrow> error + connection" where
  "new_BackgroundSolanaConnection e x =
     (if BackgroundSolanaConnection_accepts e x then Inr (BackgroundSolanaConnection x)
      else Inl (TypeError ''BackgroundSolanaConnection: invalid endpoint''))"

text \<open>
  \<open>defaultConnection()\<close>. The class constructor has already built this very connection,
  so on an instance that exists the call does not throw.
\<close>

definition defaultConnection :: "env \<Rightarrow> connection" where
  "defaultConnection e = Connection (defaultConnectionUrl e)"

text \<open>
  The class constructor. \<open>#isXnft\<close> is declared without an initialiser and the
  constructor does not assign it: it starts \<open>undefined\<close>.
\<close>

definition new_ProviderSolanaInjection :: "env \<Rightarrow> state" where
  "new_ProviderSolanaInjection e =
     \<lparr> isBackpack = True,
       isConnected = False,
       isXnft = None,
       publicKey = None,
       connection = defaultConnection e,
       secureSolanaClient = SolanaClient (defaultConnection e),
       secureClientOrigin =
         \<lparr> origin_context = ''browser'',
           origin_name = document_title e,
           origin_address = window_location_origin e \<rparr> \<rparr>"

subsection \<open>The notification handlers\<close>

text \<open>
  Every handler takes the event and reads nothing of it but \<open>event.data.detail\<close>,
  which the listener has read before it calls the handler: the handlers below take that
  detail.
\<close>

text \<open>
  The private method \<open>#connect\<close>. The flag is set first; a constructor that throws leaves
  the assignments before it in place.
\<close>

definition connect_private :: "env \<Rightarrow> state \<Rightarrow> jsstr \<Rightarrow> jsstr \<Rightarrow> unit outcome \<times> state" where
  "connect_private e st pk connectionUrl =
     (let st1 = st\<lparr>isConnected := True\<rparr> in
      case new_PublicKey e pk of
        Inl err \<Rightarrow> (Throws err, st1)
      | Inr k \<Rightarrow>
          (let st2 = st1\<lparr>publicKey := Some k\<rparr> in
           case new_BackgroundSolanaConnection e connectionUrl of
             Inl err \<Rightarrow> (Throws err, st2)
           | Inr c \<Rightarrow>
               (Returns (), st2\<lparr>connection := c, secureSolanaClient := SolanaClient c\<rparr>)))"

definition undefined_data :: error where
  "undefined_data = TypeError ''Cannot read properties of undefined''"

definition handlePluginConnect :: "env \<Rightarrow> state \<Rightarrow> detail \<Rightarrow> unit result" where
  "handlePluginConnect e st dt =
     (case detail_data dt of
        None \<Rightarrow> (Throws undefined_data, st, [])
      | Some d \<Rightarrow>
          (case data_publicKeys d of
             None \<Rightarrow> (Throws undefined_data, st, [])
           | Some publicKeys \<Rightarrow>
               (case data_connectionUrls d of
                  None \<Rightarrow> (Throws undefined_data, st, [])
                | Some connectionUrls \<Rightarrow>
                    (let pk = map_of publicKeys SOLANA;
                         connectionUrl = map_of connectionUrls SOLANA;
                         st1 = st\<lparr>secureClientOrigin :=
                                    (secureClientOrigin st)\<lparr>origin_context := ''xnft''\<rparr>,
                                  isXnft := Some True\<rparr>
                     in case connect_private e st1 pk connectionUrl of
                          (Throws err, st2) \<Rightarrow> (Throws err, st2, [])
                        | (Returns _, st2) \<Rightarrow>
                            (Returns (), st2, [Emit ''connect'' dt])))))"

definition handlePluginMount :: "state \<Rightarrow> detail \<Rightarrow> unit result" where
  "handlePluginMount st dt = (Returns (), st, [Emit ''mount'' dt])"

definition handlePluginUpdateMetadata :: "state \<Rightarrow> detail \<Rightarrow> unit result" where
  "handlePluginUpdateMetadata st dt = (Returns (), st, [Emit ''metadata'' dt])"

definition handlePluginUnmount :: "state \<Rightarrow> detail \<Rightarrow> unit result" where
  "handlePluginUnmount st dt = (Returns (), st, [Emit ''unmount'' dt])"

definition handlePluginConnectionUrlUpdated :: "env \<Rightarrow> state \<Rightarrow> detail \<Rightarrow> unit result" where
  "handlePluginConnectionUrlUpdated e st dt =
     (case detail_data dt of
        None \<Rightarrow> (Throws undefined_data, st, [])
      | Some d \<Rightarrow>
          if data_blockchain d \<noteq> Some SOLANA then (Returns (), st, [])
          else
            (case new_BackgroundSolanaConnection e (data_url d) of
               Inl err \<Rightarrow> (Throws err, st, [])
             | Inr c \<Rightarrow>
                 (Returns (),
                  st\<lparr>connection := c, secureSolanaClient := SolanaClient c\<rparr>,
                  [Emit ''connectionDidChange'' dt])))"

definition handlePluginPublicKeyUpdated :: "state \<Rightarrow> detail \<Rightarrow> unit result" where
  "handlePluginPublicKeyUpdated st dt =
     (case detail_data dt of
        None \<Rightarrow> (Throws undefined_data, st, [])
      | Some d \<Rightarrow>
          (Returns (),
           st\<lparr>publicKey := map_option RawKey (data_publicKey d)\<rparr>,
           [Emit ''publicKeyUpdate'' dt]))"

definition handleNotificationConnected :: "state \<Rightarrow> detail \<Rightarrow> unit result" where
  "handleNotificationConnected st dt = (Returns (), st, [Emit ''connect'' dt])"

definition handleNotificationDisconnected :: "env \<Rightarrow> state \<Rightarrow> detail \<Rightarrow> unit result" where
  "handleNotificationDisconnected e st dt =
     (Returns (),
      st\<lparr>isConnected := False,
         connection := defaultConnection e,
         secureSolanaClient := SolanaClient (defaultConnection e)\<rparr>,
      [Emit ''disconnect'' dt])"

definition handleNotificationConnectionUrlUpdated :: "env \<Rightarrow> state \<Rightarrow> detail \<Rightarrow> unit result" where
  "handleNotificationConnectionUrlUpdated e st dt =
     (case detail_data dt of
        None \<Rightarrow> (Throws undefined_data, st, [])
      | Some d \<Rightarrow>
          if data_blockchain d \<noteq> Some SOLANA then (Returns (), st, [])
          else
            (case new_Connection e (data_url d) of
               Inl err \<Rightarrow> (Throws err, st, [])
             | Inr c \<Rightarrow>
                 (Returns (),
                  st\<lparr>secureSolanaClient := SolanaClient c\<rparr>,
                  [Emit ''connectionDidChange'' dt])))"

definition handleNotificationActiveWalletUpdated :: "env \<Rightarrow> state \<Rightarrow> detail \<Rightarrow> unit result" where
  "handleNotificationActiveWalletUpdated e st dt =
     (case detail_data dt of
        None \<Rightarrow> (Throws undefined_data, st, [])
      | Some d \<Rightarrow>
          if data_blockchain d \<noteq> Some SOLANA then (Returns (), st, [])
          else
            (case new_PublicKey e (data_activeWallet d) of
               Inl err \<Rightarrow> (Throws err, st, [])
             | Inr k \<Rightarrow>
                 (Returns (),
                  st\<lparr>publicKey := Some k\<rparr>,
                  [Emit ''activeWalletDidChange'' dt])))"

text \<open>The \<open>switch\<close> of \<open>#handleNotification\<close>, case by case in the source's order.\<close>

fun dispatch :: "env \<Rightarrow> state \<Rightarrow> detail \<Rightarrow> event_name \<Rightarrow> unit result" where
  "dispatch e st dt NOTIFICATION_SOLANA_CONNECTED = handleNotificationConnected st dt"
| "dispatch e st dt NOTIFICATION_SOLANA_DISCONNECTED = handleNotificationDisconnected e st dt"
| "dispatch e st dt NOTIFICATION_CONNECTION_URL_UPDATED =
     handleNotificationConnectionUrlUpdated e st dt"
| "dispatch e st dt NOTIFICATION_ACTIVE_WALLET_UPDATED =
     handleNotificationActiveWalletUpdated e st dt"
| "dispatch e st dt PLUGIN_NOTIFICATION_CONNECT = handlePluginConnect e st dt"
| "dispatch e st dt PLUGIN_NOTIFICATION_MOUNT = handlePluginMount st dt"
| "dispatch e st dt PLUGIN_NOTIFICATION_UPDATE_METADATA = handlePluginUpdateMetadata st dt"
| "dispatch e st dt PLUGIN_NOTIFICATION_UNMOUNT = handlePluginUnmount st dt"
| "dispatch e st dt PLUGIN_NOTIFICATION_CONNECTION_URL_UPDATED =
     handlePluginConnectionUrlUpdated e st dt"
| "dispatch e st dt PLUGIN_NOTIFICATION_SOLANA_PUBLIC_KEY_UPDATED =
     handlePluginPublicKeyUpdated st dt"
| "dispatch e st dt (UnrecognizedName n) =
     (Throws (Error (''unexpected notification '' @ n)), st, [])"

text \<open>
  \<open>#handleNotification\<close>, the listener of the window's message events: the origin
  test, the channel test (reading \<open>event.data.type\<close> throws when \<open>event.data\<close> is
  \<open>null\<close> or \<open>undefined\<close>), the debug log, then the switch on
  \<open>event.data.detail.name\<close> (reading it throws when the detail is undefined). What
  the chosen handler emits comes after the log line.
\<close>

definition handleNotification :: "env \<Rightarrow> state \<Rightarrow> event \<Rightarrow> unit result" where
  "handleNotification e st ev =
     (if \<not> isValidEventOrigin e ev then (Returns (), st, [])
      else
        (case ev_data ev of
           None \<Rightarrow> (Throws undefined_data, st, [])
         | Some m \<Rightarrow>
             if msg_type m \<noteq> CHANNEL_SOLANA_NOTIFICATION
                \<and> msg_type m \<noteq> CHANNEL_PLUGIN_NOTIFICATION
             then (Returns (), st, [])
             else
               (case msg_detail m of
                  None \<Rightarrow> (Throws undefined_data, st, [Debug ev])
                | Some dt \<Rightarrow>
                    (case dispatch e st dt (detail_name dt) of
                       (r, st', fx) \<Rightarrow> (r, st', Debug ev # fx)))))"

text \<open>
  The event loop delivering messages one after the other. A listener that throws ends
  that delivery only: what it had assigned stays, and the next message is delivered.
\<close>

fun deliver :: "env \<Rightarrow> state \<Rightarrow> event list \<Rightarrow> state \<times> effect list" where
  "deliver e st [] = (st, [])"
| "deliver e st (ev # evs) =
     (case handleNotification e st ev of
        (r, st1, fx1) \<Rightarrow>
          (case deliver e st1 evs of (st2, fx2) \<Rightarrow> (st2, fx1 @ fx2)))"

subsection \<open>Awaiting the trusted side\<close>

text \<open>
  How an awaited promise settles; and an \<open>await\<close>: the messages delivered to the
  listener while the method is suspended, then the settlement.
\<close>

datatype 'a settled = Resolved 'a | Rejected error

type_synonym 'a awaited = "event list \<times> 'a settled"

definition suspend :: "env \<Rightarrow> state \<Rightarrow> 'a awaited \<Rightarrow> 'a result" where
  "suspend e st aw =
     (case deliver e st (fst aw) of
        (st1, fx) \<Rightarrow>
          (case snd aw of Resolved v \<Rightarrow> Returns v | Rejected err \<Rightarrow> Throws err, st1, fx))"

subsection \<open>The public methods\<close>

text \<open>
  \<open>connect()\<close>. The trusted side answers with \<open>{publicKey, connectionUrl}\<close>, the pair
  of the awaited value.
\<close>

definition connect :: "env \<Rightarrow> state \<Rightarrow> (string \<times> string) awaited \<Rightarrow> unit result" where
  "connect e st aw =
     (if isConnected st then (Returns (), st, [Warn ''provider already connected''])
      else
        (let w = (if isXnft st = Some True then [Warn ''xnft already connected''] else []);
             call = ClientConnect (secureSolanaClient st)
         in case suspend e st aw of
              (Throws err, st1, fx) \<Rightarrow> (Throws err, st1, w @ call # fx)
            | (Returns res, st1, fx) \<Rightarrow>
                (case connect_private e st1 (Some (fst res)) (Some (snd res)) of
                   (r, st2) \<Rightarrow> (r, st2, w @ call # fx))))"

definition cannot_disconnect :: string where
  "cannot_disconnect = ''xnft can'' @ [CHR 0x27] @ ''t be disconnected''"

definition disconnect :: "env \<Rightarrow> state \<Rightarrow> unit awaited \<Rightarrow> unit result" where
  "disconnect e st aw =
     (if isXnft st = Some True then (Returns (), st, [Warn cannot_disconnect])
      else
        (let call = ClientDisconnect (secureSolanaClient st)
         in case suspend e st aw of
              (Throws err, st1, fx) \<Rightarrow> (Throws err, st1, call # fx)
            | (Returns _, st1, fx) \<Rightarrow>
                (Returns (),
                 st1\<lparr>connection := defaultConnection e,
                     secureSolanaClient := SolanaClient (defaultConnection e),
                     isConnected := False,
                     publicKey := None\<rparr>,
                 call # fx)))"

definition openXnft :: "env \<Rightarrow> state \<Rightarrow> string \<Rightarrow> unit awaited \<Rightarrow> unit result" where
  "openXnft e st xnftAddress aw =
     (if isXnft st = Some True
      then (Throws (Error ''xnft context: use window.xnft.openPlugin instead''), st, [])
      else
        (case suspend e st aw of
           (r, st1, fx) \<Rightarrow> (r, st1, OpenXnftRequest xnftAddress # fx)))"

text \<open>
  \<open>!this.#publicKey\<close>: \<open>undefined\<close> is falsy, and so is the empty string a plugin
  notification may have stored; an object is truthy.
\<close>

fun truthy :: "key_value option \<Rightarrow> bool" where
  "truthy None = False"
| "truthy (Some (PublicKey s)) = True"
| "truthy (Some (RawKey s)) = (s \<noteq> [])"

text \<open>\<open>a ?? b\<close> on an optional argument.\<close>

fun nullish :: "'a option \<Rightarrow> 'a \<Rightarrow> 'a" where
  "nullish None b = b"
| "nullish (Some a) b = a"

definition not_connected :: error where
  "not_connected = Error ''wallet not connected''"

text \<open>
  The first two statements of \<open>sendAndConfirm\<close>, \<open>send\<close>, \<open>simulate\<close>,
  \<open>signTransaction\<close>, \<open>signAllTransactions\<close> and \<open>signMessage\<close>, the same in all six:
  \<open>if (!this.#publicKey) await this.connect();\<close> and
  \<open>if (!this.#publicKey) throw new Error("wallet not connected");\<close>.
  It returns the account the rest of the method reads from \<open>this.#publicKey\<close>.
\<close>

definition lazy_connect :: "env \<Rightarrow> state \<Rightarrow> (string \<times> string) awaited \<Rightarrow> key_value result" where
  "lazy_connect e st awc =
     (case (if \<not> truthy (publicKey st) then connect e st awc else (Returns (), st, [])) of
        (Throws err, st1, fx) \<Rightarrow> (Throws err, st1, fx)
      | (Returns _, st1, fx) \<Rightarrow>
          (case publicKey st1 of
             None \<Rightarrow> (Throws not_connected, st1, fx)
           | Some k \<Rightarrow>
               if \<not> truthy (Some k) then (Throws not_connected, st1, fx)
               else (Returns k, st1, fx)))"

text \<open>
  The rest of a guarded method: build the call from the fields as they are now, hand it
  over, and await the answer.
\<close>

definition guarded ::
  "env \<Rightarrow> state \<Rightarrow> (string \<times> string) awaited \<Rightarrow> (state \<Rightarrow> key_value \<Rightarrow> effect) \<Rightarrow> 'a awaited
     \<Rightarrow> 'a result" where
  "guarded e st awc call awo =
     (case lazy_connect e st awc of
        (Throws err, st1, fx) \<Rightarrow> (Throws err, st1, fx)
      | (Returns k, st1, fx) \<Rightarrow>
          (case suspend e st1 awo of
             (r, st2, fx2) \<Rightarrow> (r, st2, fx @ call st1 k # fx2)))"

definition sendAndConfirm ::
  "env \<Rightarrow> state \<Rightarrow> transaction \<Rightarrow> signers option \<Rightarrow> options option \<Rightarrow> connection option
     \<Rightarrow> key_value option \<Rightarrow> (string \<times> string) awaited \<Rightarrow> string awaited \<Rightarrow> string result" where
  "sendAndConfirm e st tx sgs opts conn pk awc awo =
     guarded e st awc
       (\<lambda>st1 k. ClientCall (secureSolanaClient st1)
                  (SendAndConfirm (nullish pk k) tx sgs opts conn))
       awo"

definition send ::
  "env \<Rightarrow> state \<Rightarrow> transaction \<Rightarrow> signers option \<Rightarrow> options option \<Rightarrow> connection option
     \<Rightarrow> key_value option \<Rightarrow> (string \<times> string) awaited \<Rightarrow> string awaited \<Rightarrow> string result" where
  "send e st tx sgs opts conn pk awc awo =
     guarded e st awc
       (\<lambda>st1 k. ClientCall (secureSolanaClient st1) (Send (nullish pk k) tx sgs opts conn))
       awo"

definition sendAll :: "state \<Rightarrow> string list result" where
  "sendAll st = (Throws (Error ''sendAll not implemented''), st, [])"

text \<open>
  \<open>simulate\<close> does not go through the client: it calls \<open>cmn.simulate\<close> with
  \<open>this.#requestManager\<close> (always the same manager) and
  \<open>connection ?? this.#connection\<close>.
\<close>

definition simulate ::
  "env \<Rightarrow> state \<Rightarrow> transaction \<Rightarrow> signers option \<Rightarrow> commitment option \<Rightarrow> connection option
     \<Rightarrow> key_value option \<Rightarrow> (string \<times> string) awaited \<Rightarrow> string awaited \<Rightarrow> string result" where
  "simulate e st tx sgs cmt conn pk awc awo =
     guarded e st awc
       (\<lambda>st1 k. CmnSimulate (nullish pk k) (nullish conn (connection st1)) tx sgs cmt)
       awo"

definition signTransaction ::
  "env \<Rightarrow> state \<Rightarrow> transaction \<Rightarrow> key_value option \<Rightarrow> connection option
     \<Rightarrow> (string \<times> string) awaited \<Rightarrow> transaction awaited \<Rightarrow> transaction result" where
  "signTransaction e st tx pk conn awc awo =
     guarded e st awc
       (\<lambda>st1 k. ClientCall (secureSolanaClient st1) (SignTransaction (nullish pk k) tx conn))
       awo"

definition signAllTransactions ::
  "env \<Rightarrow> state \<Rightarrow> transaction list \<Rightarrow> key_value option \<Rightarrow> connection option
     \<Rightarrow> (string \<times> string) awaited \<Rightarrow> transaction list awaited \<Rightarrow> transaction list result" where
  "signAllTransactions e st txs pk conn awc awo =
     guarded e st awc
       (\<lambda>st1 k. ClientCall (secureSolanaClient st1)
                  (SignAllTransactions (nullish pk k) txs conn))
       awo"

definition prepareSolanaOffchainMessage ::
  "env \<Rightarrow> state \<Rightarrow> bytes \<Rightarrow> string \<Rightarrow> nat \<Rightarrow> bytes awaited \<Rightarrow> bytes result" where
  "prepareSolanaOffchainMessage e st message encoding maxLength aw =
     (case suspend e st aw of
        (r, st1, fx) \<Rightarrow>
          (r, st1,
           ClientCall (secureSolanaClient st)
             (PrepareSolanaOffchainMessage message encoding maxLength) # fx))"

definition signMessage ::
  "env \<Rightarrow> state \<Rightarrow> bytes \<Rightarrow> key_value option
     \<Rightarrow> (string \<times> string) awaited \<Rightarrow> bytes awaited \<Rightarrow> bytes result" where
  "signMessage e st msg pk awc awo =
     guarded e st awc
       (\<lambda>st1 k. ClientCall (secureSolanaClient st1) (SignMessage (nullish pk k) msg))
       awo"

subsection \<open>The guarded methods, as one family\<close>

text \<open>
  A call of one of the six guarded methods: its arguments and the await of its own
  request. \<open>invoke\<close> runs the method and forgets the type of the value it returns, so
  that a statement can range over the six.
\<close>

datatype guarded_op =
    OpSendAndConfirm transaction "signers option" "options option" "connection option"
      "key_value option" "string awaited"
  | OpSend transaction "signers option" "options option" "connection option"
      "key_value option" "string awaited"
  | OpSimulate transaction "signers option" "commitment option" "connection option"
      "key_value option" "string awaited"
  | OpSignTransaction transaction "key_value option" "connection option" "transaction awaited"
  | OpSignAllTransactions "transaction list" "key_value option" "connection option"
      "transaction list awaited"
  | OpSignMessage bytes "key_value option" "bytes awaited"

definition forget :: "'a result \<Rightarrow> unit result" where
  "forget r =
     (case outcome_of r of Returns _ \<Rightarrow> Returns () | Throws err \<Rightarrow> Throws err,
      state_of r, effects_of r)"

fun invoke :: "env \<Rightarrow> state \<Rightarrow> (string \<times> string) awaited \<Rightarrow> guarded_op \<Rightarrow> unit result" where
  "invoke e st awc (OpSendAndConfirm tx sgs opts conn pk awo) =
     forget (sendAndConfirm e st tx sgs opts conn pk awc awo)"
| "invoke e st awc (OpSend tx sgs opts conn pk awo) =
     forget (send e st tx sgs opts conn pk awc awo)"
| "invoke e st awc (OpSimulate tx sgs cmt conn pk awo) =
     forget (simulate e st tx sgs cmt conn pk awc awo)"
| "invoke e st awc (OpSignTransaction tx pk conn awo) =
     forget (signTransaction e st tx pk conn awc awo)"
| "invoke e st awc (OpSignAllTransactions txs pk conn awo) =
     forget (signAllTransactions e st txs pk conn awc awo)"
| "invoke e st awc (OpSignMessage msg pk awo) =
     forget (signMessage e st msg pk awc awo)"

text \<open>The optional \<open>publicKey\<close> argument of the call.\<close>

fun supplied_key :: "guarded_op \<Rightarrow> key_value option" where
  "supplied_key (OpSendAndConfirm tx sgs opts conn pk awo) = pk"
| "supplied_key (OpSend tx sgs opts conn pk awo) = pk"
| "supplied_key (OpSimulate tx sgs cmt conn pk awo) = pk"
| "supplied_key (OpSignTransaction tx pk conn awo) = pk"
| "supplied_key (OpSignAllTransactions txs pk conn awo) = pk"
| "supplied_key (OpSignMessage msg pk awo) = pk"

subsection \<open>The life of an instance\<close>

text \<open>
  Everything that can happen to an instance after its construction: a message is
  delivered to its listener, or one of its public methods is called (with the arguments
  and the awaits of that call). The getters read a field and change nothing.
\<close>

datatype call =
    Notification event
  | CallDefaultConnection
  | CallConnect "(string \<times> string) awaited"
  | CallDisconnect "unit awaited"
  | CallOpenXnft string "unit awaited"
  | CallSendAll
  | CallPrepareSolanaOffchainMessage bytes string nat "bytes awaited"
  | CallGuarded "(string \<times> string) awaited" guarded_op

fun step :: "env \<Rightarrow> state \<Rightarrow> call \<Rightarrow> state" where
  "step e st (Notification ev) = state_of (handleNotification e st ev)"
| "step e st CallDefaultConnection = st"
| "step e st (CallConnect aw) = state_of (connect e st aw)"
| "step e st (CallDisconnect aw) = state_of (disconnect e st aw)"
| "step e st (CallOpenXnft a aw) = state_of (openXnft e st a aw)"
| "step e st CallSendAll = state_of (sendAll st)"
| "step e st (CallPrepareSolanaOffchainMessage m enc n aw) =
     state_of (prepareSolanaOffchainMessage e st m enc n aw)"
| "step e st (CallGuarded awc op) = state_of (invoke e st awc op)"


subsection \<open>Reading a trace\<close>

text \<open>What the message listener itself leaves in a trace: its log line and the public events.\<close>

fun from_listener :: "effect \<Rightarrow> bool" where
  "from_listener (Debug ev) = True"
| "from_listener (Emit n d) = True"
| "from_listener _ = False"

text \<open>The public events of a trace.\<close>

fun public_event :: "effect \<Rightarrow> (string \<times> detail) option" where
  "public_event (Emit n d) = Some (n, d)"
| "public_event _ = None"

definition public_events :: "effect list \<Rightarrow> (string \<times> detail) list" where
  "public_events fx = List.map_filter public_event fx"

text \<open>
  A call of \<open>connect()\<close> leaves exactly one of two marks in the trace: its first
  statement either warns that the provider is already connected and returns, or the
  method goes on to the round trip to the trusted side.
\<close>

fun is_connect_attempt :: "effect \<Rightarrow> bool" where
  "is_connect_attempt (Warn w) = (w = ''provider already connected'')"
| "is_connect_attempt (ClientConnect c) = True"
| "is_connect_attempt _ = False"

definition connect_attempts :: "effect list \<Rightarrow> nat" where
  "connect_attempts fx = length (filter is_connect_attempt fx)"

text \<open>The requests of a trace that a guarded method dispatched, and the key each carries.\<close>

fun carried_key :: "effect \<Rightarrow> key_value option" where
  "carried_key (ClientCall c (SendAndConfirm k tx sgs opts conn)) = Some k"
| "carried_key (ClientCall c (Send k tx sgs opts conn)) = Some k"
| "carried_key (ClientCall c (SignTransaction k tx conn)) = Some k"
| "carried_key (ClientCall c (SignAllTransactions k txs conn)) = Some k"
| "carried_key (ClientCall c (SignMessage k msg)) = Some k"
| "carried_key (CmnSimulate k conn tx sgs cmt) = Some k"
| "carried_key _ = None"

definition carried_keys :: "effect list \<Rightarrow> key_value list" where
  "carried_keys fx = List.map_filter carried_key fx"

fun is_dispatch :: "effect \<Rightarrow> bool" where
  "is_dispatch (ClientCall c r) = True"
| "is_dispatch (CmnSimulate k conn tx sgs cmt) = True"
| "is_dispatch _ = False"

definition dispatched :: "effect list \<Rightarrow> effect list" where
  "dispatched fx = filter is_dispatch fx"

subsection \<open>Which messages move the connected flag\<close>

text \<open>The channel tag and the detail of a message, when it has them.\<close>

definition channel_of :: "event \<Rightarrow> channel option" where
  "channel_of ev = map_option msg_type (ev_data ev)"

definition detail_of :: "event \<Rightarrow> detail option" where
  "detail_of ev = (case ev_data ev of None \<Rightarrow> None | Some m \<Rightarrow> msg_detail m)"

text \<open>A message that passes the two early returns of the listener.\<close>

definition accepted :: "env \<Rightarrow> event \<Rightarrow> bool" where
  "accepted e ev =
     (isValidEventOrigin e ev
      \<and> (channel_of ev = Some CHANNEL_SOLANA_NOTIFICATION
           \<or> channel_of ev = Some CHANNEL_PLUGIN_NOTIFICATION))"

text \<open>
  An accepted plugin-connect message whose payload has the two tables the handler
  destructures (without them the handler throws before it assigns anything).
\<close>

definition plugin_connect_applied :: "env \<Rightarrow> event \<Rightarrow> bool" where
  "plugin_connect_applied e ev =
     (accepted e ev
      \<and> map_option detail_name (detail_of ev) = Some PLUGIN_NOTIFICATION_CONNECT
      \<and> (case Option.bind (detail_of ev) detail_data of
            None \<Rightarrow> False
          | Some d \<Rightarrow> data_publicKeys d \<noteq> None \<and> data_connectionUrls d \<noteq> None))"

definition disconnected_applied :: "env \<Rightarrow> event \<Rightarrow> bool" where
  "disconnected_applied e ev =
     (accepted e ev
      \<and> map_option detail_name (detail_of ev) = Some NOTIFICATION_SOLANA_DISCONNECTED)"

definition terminal_events :: "env \<Rightarrow> event list \<Rightarrow> event list" where
  "terminal_events e evs =
     filter (\<lambda>ev. plugin_connect_applied e ev \<or> disconnected_applied e ev) evs"

subsection \<open>A page, its messages and its sessions\<close>

definition page_env :: env where
  "page_env =
     \<lparr> isValidEventOrigin = (\<lambda>ev. ev_origin ev = ''https://dapp.example''),
       defaultConnectionUrl = ''https://default-rpc.example'',
       PublicKey_accepts = (\<lambda>s. s \<noteq> []),
       Connection_accepts = (\<lambda>s. take 4 s = ''http''),
       BackgroundSolanaConnection_accepts = (\<lambda>u. u \<noteq> None),
       document_title = ''dapp'',
       window_location_origin = ''https://dapp.example'' \<rparr>"

definition no_fields :: payload where
  "no_fields =
     \<lparr> data_blockchain = None, data_url = None, data_activeWallet = None,
       data_publicKey = None, data_publicKeys = None, data_connectionUrls = None \<rparr>"

definition message :: "channel \<Rightarrow> event_name \<Rightarrow> payload option \<Rightarrow> event" where
  "message ch n d =
     \<lparr> ev_origin = ''https://dapp.example'',
       ev_data = Some \<lparr> msg_type = ch,
                        msg_detail = Some \<lparr> detail_name = n, detail_data = d \<rparr> \<rparr> \<rparr>"

definition connected_message :: event where
  "connected_message =
     message CHANNEL_SOLANA_NOTIFICATION NOTIFICATION_SOLANA_CONNECTED (Some no_fields)"

definition disconnected_message :: event where
  "disconnected_message =
     message CHANNEL_SOLANA_NOTIFICATION NOTIFICATION_SOLANA_DISCONNECTED (Some no_fields)"

definition plugin_connect_message :: "string \<Rightarrow> string \<Rightarrow> event" where
  "plugin_connect_message account endpoint =
     message CHANNEL_PLUGIN_NOTIFICATION PLUGIN_NOTIFICATION_CONNECT
       (Some (no_fields\<lparr> data_publicKeys := Some [(SOLANA, account)],
                         data_connectionUrls := Some [(SOLANA, endpoint)] \<rparr>))"

definition url_updated_message :: "blockchain \<Rightarrow> string \<Rightarrow> event" where
  "url_updated_message chain endpoint =
     message CHANNEL_SOLANA_NOTIFICATION NOTIFICATION_CONNECTION_URL_UPDATED
       (Some (no_fields\<lparr> data_blockchain := Some chain, data_url := Some endpoint \<rparr>))"

text \<open>A page that has just constructed its provider.\<close>

definition fresh_session :: state where
  "fresh_session = new_ProviderSolanaInjection page_env"

text \<open>The same page after \<open>connect()\<close>, answered with an account and an endpoint.\<close>

definition standalone_session :: state where
  "standalone_session =
     state_of (connect page_env fresh_session
                 ([], Resolved (''ACCOUNT-X'', ''https://rpc-1.example'')))"

text \<open>A provider inside a host that has delivered its plugin-connect message.\<close>

definition embedded_session :: state where
  "embedded_session =
     state_of (handleNotification page_env fresh_session
                 (plugin_connect_message ''ACCOUNT-X'' ''https://rpc-1.example''))"

text \<open>
  A host whose plugin-connect message names no Solana account: the flag is set, the
  \<open>PublicKey\<close> constructor throws, no account is bound.
\<close>

definition keyless_session :: state where
  "keyless_session =
     state_of (handleNotification page_env fresh_session
                 (message CHANNEL_PLUGIN_NOTIFICATION PLUGIN_NOTIFICATION_CONNECT
                    (Some (no_fields\<lparr> data_publicKeys := Some [],
                                      data_connectionUrls := Some [] \<rparr>))))"

text \<open>
  The standalone session after the extension announced a new Solana endpoint.
\<close>

definition moved_session :: state where
  "moved_session =
     state_of (handleNotification page_env standalone_session
                 (url_updated_message SOLANA ''https://rpc-2.example''))"

definition wallet_updated_message :: "blockchain \<Rightarrow> string \<Rightarrow> event" where
  "wallet_updated_message chain wallet =
     message CHANNEL_SOLANA_NOTIFICATION NOTIFICATION_ACTIVE_WALLET_UPDATED
       (Some (no_fields\<lparr> data_blockchain := Some chain, data_activeWallet := Some wallet \<rparr>))"

text \<open>
  The host announcing a new Solana key, in a payload that also names another chain.
\<close>

definition plugin_key_message :: "blockchain \<Rightarrow> string \<Rightarrow> event" where
  "plugin_key_message chain key =
     message CHANNEL_PLUGIN_NOTIFICATION PLUGIN_NOTIFICATION_SOLANA_PUBLIC_KEY_UPDATED
       (Some (no_fields\<lparr> data_blockchain := Some chain, data_publicKey := Some key \<rparr>))"

definition plugin_url_updated_message :: "blockchain \<Rightarrow> string \<Rightarrow> event" where
  "plugin_url_updated_message chain endpoint =
     message CHANNEL_PLUGIN_NOTIFICATION PLUGIN_NOTIFICATION_CONNECTION_URL_UPDATED
       (Some (no_fields\<lparr> data_blockchain := Some chain, data_url := Some endpoint \<rparr>))"

text \<open>
  Messages the listener does not handle: one from elsewhere, one on the channel of
  another provider, one with a name the switch does not know, one posted by the page
  itself with \<open>null\<close> as its data, and one on an accepted channel without a detail.
\<close>

definition null_message :: event where
  "null_message = \<lparr> ev_origin = ''https://dapp.example'', ev_data = None \<rparr>"

definition bare_message :: event where
  "bare_message =
     \<lparr> ev_origin = ''https://dapp.example'',
       ev_data = Some \<lparr> msg_type = CHANNEL_SOLANA_NOTIFICATION, msg_detail = None \<rparr> \<rparr>"

definition foreign_message :: event where
  "foreign_message = disconnected_message\<lparr> ev_origin := ''https://elsewhere.example'' \<rparr>"

definition other_channel_message :: event where
  "other_channel_message =
     message (OtherChannel ''channel-of-another-provider'') NOTIFICATION_SOLANA_DISCONNECTED
       (Some no_fields)"

definition unknown_message :: event where
  "unknown_message =
     message CHANNEL_SOLANA_NOTIFICATION (UnrecognizedName ''notification-of-a-later-version'')
       (Some no_fields)"


definition user_declines :: "(string \<times> string) awaited" where
  "user_declines = ([], Rejected (Rejection ''user declined''))"

definition user_approves :: "(string \<times> string) awaited" where
  "user_approves = ([], Resolved (''ACCOUNT-Y'', ''https://rpc-3.example''))"

definition signature_arrives :: "string awaited" where
  "signature_arrives = ([], Resolved ''SIGNATURE'')"

section \<open>Properties\<close>

lemmas handler_defs =
  handlePluginConnect_def handlePluginMount_def handlePluginUpdateMetadata_def
  handlePluginUnmount_def handlePluginConnectionUrlUpdated_def
  handlePluginPublicKeyUpdated_def handleNotificationConnected_def
  handleNotificationDisconnected_def handleNotificationConnectionUrlUpdated_def
  handleNotificationActiveWalletUpdated_def connect_private_def
  new_PublicKey_def new_Connection_def new_BackgroundSolanaConnection_def

lemmas result_defs = outcome_of_def state_of_def effects_of_def

lemmas method_defs = connect_def disconnect_def suspend_def lazy_connect_def guarded_def

lemmas reading_defs = channel_of_def detail_of_def accepted_def

lemmas page_defs =
  page_env_def no_fields_def message_def connected_message_def disconnected_message_def
  plugin_connect_message_def url_updated_message_def fresh_session_def
  new_ProviderSolanaInjection_def defaultConnection_def

subsection \<open>The sessions at hand, field by field\<close>

lemma standalone_session_eq:
  "standalone_session =
     \<lparr> isBackpack = True, isConnected = True, isXnft = None,
       publicKey = Some (PublicKey ''ACCOUNT-X''),
       connection = BackgroundSolanaConnection (Some ''https://rpc-1.example''),
       secureSolanaClient =
         SolanaClient (BackgroundSolanaConnection (Some ''https://rpc-1.example'')),
       secureClientOrigin =
         \<lparr> origin_context = ''browser'', origin_name = ''dapp'',
           origin_address = ''https://dapp.example'' \<rparr> \<rparr>"
  by (simp add: standalone_session_def page_defs method_defs handler_defs result_defs)

lemma embedded_session_eq:
  "embedded_session =
     \<lparr> isBackpack = True, isConnected = True, isXnft = Some True,
       publicKey = Some (PublicKey ''ACCOUNT-X''),
       connection = BackgroundSolanaConnection (Some ''https://rpc-1.example''),
       secureSolanaClient =
         SolanaClient (BackgroundSolanaConnection (Some ''https://rpc-1.example'')),
       secureClientOrigin =
         \<lparr> origin_context = ''xnft'', origin_name = ''dapp'',
           origin_address = ''https://dapp.example'' \<rparr> \<rparr>"
  by (simp add: embedded_session_def page_defs handleNotification_def handler_defs result_defs)

lemma keyless_session_eq:
  "keyless_session =
     \<lparr> isBackpack = True, isConnected = True, isXnft = Some True,
       publicKey = None,
       connection = Connection ''https://default-rpc.example'',
       secureSolanaClient = SolanaClient (Connection ''https://default-rpc.example''),
       secureClientOrigin =
         \<lparr> origin_context = ''xnft'', origin_name = ''dapp'',
           origin_address = ''https://dapp.example'' \<rparr> \<rparr>"
  by (simp add: keyless_session_def page_defs handleNotification_def handler_defs result_defs)

subsection \<open>The listener and the connected flag\<close>

lemma dispatch_isConnected:
  "isConnected (fst (snd (dispatch e st dt n))) =
     (if n = PLUGIN_NOTIFICATION_CONNECT
         \<and> (case detail_data dt of
               None \<Rightarrow> False
             | Some d \<Rightarrow> data_publicKeys d \<noteq> None \<and> data_connectionUrls d \<noteq> None)
      then True
      else if n = NOTIFICATION_SOLANA_DISCONNECTED then False
      else isConnected st)"
  by (cases n) (auto simp: handler_defs split: option.splits sum.splits)

lemma handleNotification_isConnected:
  "isConnected (state_of (handleNotification e st ev)) =
     (if plugin_connect_applied e ev then True
      else if disconnected_applied e ev then False
      else isConnected st)"
proof (cases "detail_of ev")
  case None
  then show ?thesis
    by (auto simp: handleNotification_def state_of_def plugin_connect_applied_def
          disconnected_applied_def detail_of_def split: option.splits)
next
  case (Some dt)
  then obtain m where m: "ev_data ev = Some m" "msg_detail m = Some dt"
    by (auto simp: detail_of_def split: option.splits)
  show ?thesis
    using dispatch_isConnected [of e st dt "detail_name dt"] m Some
    by (auto simp: handleNotification_def state_of_def plugin_connect_applied_def
          disconnected_applied_def reading_defs split_beta)
qed

lemma deliver_Cons_state:
  "fst (deliver e st (ev # evs)) = fst (deliver e (state_of (handleNotification e st ev)) evs)"
  by (simp add: state_of_def split: prod.splits)

lemma deliver_snoc:
  "fst (deliver e st (evs @ [ev])) =
     state_of (handleNotification e (fst (deliver e st evs)) ev)"
proof (induction evs arbitrary: st)
  case Nil
  show ?case by (simp add: state_of_def split: prod.splits)
next
  case (Cons a evs)
  have "fst (deliver e st ((a # evs) @ [ev])) =
      fst (deliver e (state_of (handleNotification e st a)) (evs @ [ev]))"
    using deliver_Cons_state [of e st a "evs @ [ev]"] by simp
  also have "\<dots> = state_of (handleNotification e
      (fst (deliver e (state_of (handleNotification e st a)) evs)) ev)"
    by (rule Cons.IH)
  also have "fst (deliver e (state_of (handleNotification e st a)) evs) =
      fst (deliver e st (a # evs))"
    by (rule deliver_Cons_state [symmetric])
  finally show ?case .
qed

lemma applied_exclusive:
  "disconnected_applied e ev \<Longrightarrow> \<not> plugin_connect_applied e ev"
  by (auto simp: disconnected_applied_def plugin_connect_applied_def)

text \<open>
  C1, as the code has it. After any sequence of delivered messages, \<open>isConnected\<close> is
  what the most recent terminal message left: true after a plugin-connect message that
  reached \<open>#connect\<close>, false after a disconnected message, and the value it had before
  when the sequence holds neither. The extension's connected notification is not among
  them: its handler only emits the public event.
\<close>

theorem isConnected_follows_last_terminal:
  "isConnected (fst (deliver e st evs)) =
     (if terminal_events e evs = [] then isConnected st
      else plugin_connect_applied e (last (terminal_events e evs)))"
proof (induction evs rule: rev_induct)
  case Nil
  show ?case by (simp add: terminal_events_def)
next
  case (snoc ev evs)
  have step: "isConnected (fst (deliver e st (evs @ [ev]))) =
      (if plugin_connect_applied e ev then True
       else if disconnected_applied e ev then False
       else isConnected (fst (deliver e st evs)))"
    by (simp add: deliver_snoc handleNotification_isConnected)
  show ?case
  proof (cases "plugin_connect_applied e ev \<or> disconnected_applied e ev")
    case True
    then have "last (terminal_events e (evs @ [ev])) = ev"
      and "terminal_events e (evs @ [ev]) \<noteq> []"
      by (auto simp: terminal_events_def)
    with True step show ?thesis
      by (auto dest: applied_exclusive)
  next
    case False
    then have "terminal_events e (evs @ [ev]) = terminal_events e evs"
      by (simp add: terminal_events_def)
    with False step snoc show ?thesis by simp
  qed
qed

theorem isConnected_follows_last_terminal_witness:
  "isConnected (fst (deliver page_env fresh_session
      [plugin_connect_message ''ACCOUNT-X'' ''https://rpc-1.example'', connected_message]))
   \<and> \<not> isConnected (fst (deliver page_env fresh_session
      [plugin_connect_message ''ACCOUNT-X'' ''https://rpc-1.example'',
       disconnected_message, connected_message]))"
  using isConnected_follows_last_terminal [of page_env fresh_session
      "[plugin_connect_message ''ACCOUNT-X'' ''https://rpc-1.example'', connected_message]"]
    isConnected_follows_last_terminal [of page_env fresh_session
      "[plugin_connect_message ''ACCOUNT-X'' ''https://rpc-1.example'',
        disconnected_message, connected_message]"]
  by (simp add: terminal_events_def plugin_connect_applied_def disconnected_applied_def
        reading_defs page_defs)

text \<open>
  C1 as the specification states it fails: the extension's connected notification, valid
  and on the extension channel, is the only message delivered to a fresh provider, and
  \<open>isConnected\<close> is still false afterwards.
\<close>

theorem connected_notification_leaves_flag_false:
  "accepted page_env connected_message
   \<and> map_option detail_name (detail_of connected_message) = Some NOTIFICATION_SOLANA_CONNECTED
   \<and> \<not> isConnected (fst (deliver page_env fresh_session [connected_message]))"
  by (simp add: reading_defs page_defs handleNotification_def handler_defs)

subsection \<open>What the listener drops and what it refuses\<close>

text \<open>
  C6, as the code has it. A message whose origin is not valid, and a message of valid
  origin that carries data whose channel tag is neither of the two notification
  channels, is dropped: the listener returns, no field changes, nothing is logged or
  emitted. A message of valid origin whose data is \<open>null\<close> or \<open>undefined\<close> makes
  the listener throw a TypeError, with no field changed. A message on an accepted
  channel whose event name is none of the ten the switch knows, or that has no detail,
  makes the listener throw, with no field changed.
\<close>

theorem listener_drops_or_raises:
  "(\<not> isValidEventOrigin e ev
      \<or> (ev_data ev = Some m
          \<and> msg_type m \<noteq> CHANNEL_SOLANA_NOTIFICATION \<and> msg_type m \<noteq> CHANNEL_PLUGIN_NOTIFICATION)
     \<longrightarrow> handleNotification e st ev = (Returns (), st, []))
   \<and> (isValidEventOrigin e evn \<and> ev_data evn = None
     \<longrightarrow> handleNotification e st evn = (Throws undefined_data, st, []))
   \<and> (accepted e evb \<and> detail_of evb = None
     \<longrightarrow> handleNotification e st evb = (Throws undefined_data, st, [Debug evb]))
   \<and> (accepted e evu \<and> map_option detail_name (detail_of evu) = Some (UnrecognizedName n)
     \<longrightarrow> handleNotification e st evu =
           (Throws (Error (''unexpected notification '' @ n)), st, [Debug evu]))"
proof (intro conjI impI)
  assume "\<not> isValidEventOrigin e ev
      \<or> (ev_data ev = Some m
          \<and> msg_type m \<noteq> CHANNEL_SOLANA_NOTIFICATION \<and> msg_type m \<noteq> CHANNEL_PLUGIN_NOTIFICATION)"
  then show "handleNotification e st ev = (Returns (), st, [])"
    by (auto simp: handleNotification_def)
next
  assume "isValidEventOrigin e evn \<and> ev_data evn = None"
  then show "handleNotification e st evn = (Throws undefined_data, st, [])"
    by (simp add: handleNotification_def)
next
  assume a: "accepted e evb \<and> detail_of evb = None"
  then obtain mb where "ev_data evb = Some mb" and "msg_detail mb = None"
    by (auto simp: reading_defs split: option.splits)
  with a show "handleNotification e st evb = (Throws undefined_data, st, [Debug evb])"
    by (auto simp: handleNotification_def reading_defs)
next
  assume a: "accepted e evu
      \<and> map_option detail_name (detail_of evu) = Some (UnrecognizedName n)"
  then obtain mu dt where mu: "ev_data evu = Some mu" "msg_detail mu = Some dt"
      "detail_name dt = UnrecognizedName n"
    by (auto simp: reading_defs split: option.splits)
  then have "dispatch e st dt (detail_name dt) =
      (Throws (Error (''unexpected notification '' @ n)), st, [])"
    by simp
  with a mu show "handleNotification e st evu =
      (Throws (Error (''unexpected notification '' @ n)), st, [Debug evu])"
    by (auto simp: handleNotification_def reading_defs)
qed

theorem listener_drops_or_raises_witness:
  "handleNotification page_env standalone_session foreign_message =
     (Returns (), standalone_session, [])
   \<and> handleNotification page_env standalone_session other_channel_message =
     (Returns (), standalone_session, [])
   \<and> handleNotification page_env standalone_session null_message =
     (Throws undefined_data, standalone_session, [])
   \<and> handleNotification page_env standalone_session bare_message =
     (Throws undefined_data, standalone_session, [Debug bare_message])
   \<and> handleNotification page_env standalone_session unknown_message =
     (Throws (Error ''unexpected notification notification-of-a-later-version''),
      standalone_session, [Debug unknown_message])"
  using listener_drops_or_raises [where e = page_env and ev = foreign_message
      and st = standalone_session and evn = null_message and evb = bare_message
      and evu = unknown_message and n = "''notification-of-a-later-version''"]
    listener_drops_or_raises [where e = page_env and ev = other_channel_message
      and m = "\<lparr> msg_type = OtherChannel ''channel-of-another-provider'',
                 msg_detail = Some \<lparr> detail_name = NOTIFICATION_SOLANA_DISCONNECTED,
                                      detail_data = Some no_fields \<rparr> \<rparr>"
      and st = standalone_session and evn = null_message and evb = bare_message
      and evu = unknown_message and n = "''notification-of-a-later-version''"]
  by (simp add: foreign_message_def other_channel_message_def unknown_message_def
        null_message_def bare_message_def reading_defs page_defs)

text \<open>
  C6 as the specification states it fails: a message of valid origin posted with
  \<open>null\<close> as its data has no channel tag, so its tag is neither of the two
  notification channels, and the listener does not return: reading \<open>event.data.type\<close>
  throws.
\<close>

theorem null_data_message_raises:
  "isValidEventOrigin page_env null_message
   \<and> channel_of null_message \<noteq> Some CHANNEL_SOLANA_NOTIFICATION
   \<and> channel_of null_message \<noteq> Some CHANNEL_PLUGIN_NOTIFICATION
   \<and> outcome_of (handleNotification page_env standalone_session null_message) =
       Throws (TypeError ''Cannot read properties of undefined'')"
  by (simp add: null_message_def page_env_def channel_of_def handleNotification_def
        outcome_of_def undefined_data_def)

subsection \<open>Updates for another chain\<close>

text \<open>
  C7, as the code has it. An accepted endpoint-updated notification, from the
  extension or from the plugin host, and an accepted account-updated notification from
  the extension, whose payload names a blockchain other than Solana, changes no field
  of the session (flag, account, connection, client) and emits no public event: the
  handler returns at its first statement, and only the listener's debug line is in the
  trace. The plugin host's public-key notification is for Solana by its name and its
  handler has no such test: it stores the key of the payload, whatever else the payload
  names, and emits \<open>publicKeyUpdate\<close>.
\<close>

theorem other_chain_update_is_ignored:
  "(accepted e ev \<and> detail_of ev = Some dt
      \<and> (detail_name dt = NOTIFICATION_CONNECTION_URL_UPDATED
           \<or> detail_name dt = NOTIFICATION_ACTIVE_WALLET_UPDATED
           \<or> detail_name dt = PLUGIN_NOTIFICATION_CONNECTION_URL_UPDATED)
      \<and> detail_data dt = Some d \<and> data_blockchain d = Some chain \<and> chain \<noteq> SOLANA
     \<longrightarrow> handleNotification e st ev = (Returns (), st, [Debug ev])
         \<and> public_events (effects_of (handleNotification e st ev)) = [])
   \<and> (accepted e ev' \<and> detail_of ev' = Some dt'
      \<and> detail_name dt' = PLUGIN_NOTIFICATION_SOLANA_PUBLIC_KEY_UPDATED
      \<and> detail_data dt' = Some d'
     \<longrightarrow> handleNotification e st ev' =
           (Returns (), st\<lparr>publicKey := map_option RawKey (data_publicKey d')\<rparr>,
            [Debug ev', Emit ''publicKeyUpdate'' dt']))"
proof (intro conjI impI)
  assume a: "accepted e ev \<and> detail_of ev = Some dt
      \<and> (detail_name dt = NOTIFICATION_CONNECTION_URL_UPDATED
           \<or> detail_name dt = NOTIFICATION_ACTIVE_WALLET_UPDATED
           \<or> detail_name dt = PLUGIN_NOTIFICATION_CONNECTION_URL_UPDATED)
      \<and> detail_data dt = Some d \<and> data_blockchain d = Some chain \<and> chain \<noteq> SOLANA"
  then obtain m where m: "ev_data ev = Some m" "msg_detail m = Some dt"
    by (auto simp: reading_defs split: option.splits)
  from a have "dispatch e st dt (detail_name dt) = (Returns (), st, [])"
    by (auto simp: handleNotificationConnectionUrlUpdated_def
          handleNotificationActiveWalletUpdated_def handlePluginConnectionUrlUpdated_def)
  with a m show h: "handleNotification e st ev = (Returns (), st, [Debug ev])"
    by (auto simp: handleNotification_def reading_defs)
  show "public_events (effects_of (handleNotification e st ev)) = []"
    by (simp add: h public_events_def effects_of_def)
next
  assume a: "accepted e ev' \<and> detail_of ev' = Some dt'
      \<and> detail_name dt' = PLUGIN_NOTIFICATION_SOLANA_PUBLIC_KEY_UPDATED
      \<and> detail_data dt' = Some d'"
  then obtain m where m: "ev_data ev' = Some m" "msg_detail m = Some dt'"
    by (auto simp: reading_defs split: option.splits)
  from a have "dispatch e st dt' (detail_name dt') =
      (Returns (), st\<lparr>publicKey := map_option RawKey (data_publicKey d')\<rparr>,
       [Emit ''publicKeyUpdate'' dt'])"
    by (simp add: handlePluginPublicKeyUpdated_def)
  with a m show "handleNotification e st ev' =
      (Returns (), st\<lparr>publicKey := map_option RawKey (data_publicKey d')\<rparr>,
       [Debug ev', Emit ''publicKeyUpdate'' dt'])"
    by (auto simp: handleNotification_def reading_defs)
qed

theorem other_chain_update_is_ignored_witness:
  "handleNotification page_env standalone_session
       (url_updated_message ETHEREUM ''https://eth.example'') =
     (Returns (), standalone_session,
      [Debug (url_updated_message ETHEREUM ''https://eth.example'')])
   \<and> handleNotification page_env standalone_session
       (wallet_updated_message ETHEREUM ''0xabc'') =
     (Returns (), standalone_session, [Debug (wallet_updated_message ETHEREUM ''0xabc'')])
   \<and> handleNotification page_env embedded_session
       (plugin_url_updated_message ETHEREUM ''https://eth.example'') =
     (Returns (), embedded_session,
      [Debug (plugin_url_updated_message ETHEREUM ''https://eth.example'')])
   \<and> publicKey (state_of (handleNotification page_env embedded_session
       (plugin_key_message SOLANA ''ACCOUNT-W''))) = Some (RawKey ''ACCOUNT-W'')"
  using other_chain_update_is_ignored [where e = page_env
      and ev = "url_updated_message ETHEREUM ''https://eth.example''"
      and dt = "\<lparr> detail_name = NOTIFICATION_CONNECTION_URL_UPDATED,
                  detail_data = Some (no_fields\<lparr> data_blockchain := Some ETHEREUM,
                                                   data_url := Some ''https://eth.example'' \<rparr>) \<rparr>"
      and d = "no_fields\<lparr> data_blockchain := Some ETHEREUM,
                          data_url := Some ''https://eth.example'' \<rparr>"
      and chain = ETHEREUM and st = standalone_session
      and ev' = "plugin_key_message SOLANA ''ACCOUNT-W''"
      and dt' = "\<lparr> detail_name = PLUGIN_NOTIFICATION_SOLANA_PUBLIC_KEY_UPDATED,
                   detail_data = Some (no_fields\<lparr> data_blockchain := Some SOLANA,
                                                    data_publicKey := Some ''ACCOUNT-W'' \<rparr>) \<rparr>"
      and d' = "no_fields\<lparr> data_blockchain := Some SOLANA,
                           data_publicKey := Some ''ACCOUNT-W'' \<rparr>"]
    other_chain_update_is_ignored [where e = page_env
      and ev = "wallet_updated_message ETHEREUM ''0xabc''"
      and dt = "\<lparr> detail_name = NOTIFICATION_ACTIVE_WALLET_UPDATED,
                  detail_data = Some (no_fields\<lparr> data_blockchain := Some ETHEREUM,
                                                   data_activeWallet := Some ''0xabc'' \<rparr>) \<rparr>"
      and d = "no_fields\<lparr> data_blockchain := Some ETHEREUM,
                          data_activeWallet := Some ''0xabc'' \<rparr>"
      and chain = ETHEREUM and st = standalone_session
      and ev' = "plugin_key_message SOLANA ''ACCOUNT-W''"
      and dt' = "\<lparr> detail_name = PLUGIN_NOTIFICATION_SOLANA_PUBLIC_KEY_UPDATED,
                   detail_data = Some (no_fields\<lparr> data_blockchain := Some SOLANA,
                                                    data_publicKey := Some ''ACCOUNT-W'' \<rparr>) \<rparr>"
      and d' = "no_fields\<lparr> data_blockchain := Some SOLANA,
                           data_publicKey := Some ''ACCOUNT-W'' \<rparr>"]
    other_chain_update_is_ignored [where e = page_env
      and ev = "plugin_url_updated_message ETHEREUM ''https://eth.example''"
      and dt = "\<lparr> detail_name = PLUGIN_NOTIFICATION_CONNECTION_URL_UPDATED,
                  detail_data = Some (no_fields\<lparr> data_blockchain := Some ETHEREUM,
                                                   data_url := Some ''https://eth.example'' \<rparr>) \<rparr>"
      and d = "no_fields\<lparr> data_blockchain := Some ETHEREUM,
                          data_url := Some ''https://eth.example'' \<rparr>"
      and chain = ETHEREUM and st = embedded_session
      and ev' = "plugin_key_message SOLANA ''ACCOUNT-W''"
      and dt' = "\<lparr> detail_name = PLUGIN_NOTIFICATION_SOLANA_PUBLIC_KEY_UPDATED,
                   detail_data = Some (no_fields\<lparr> data_blockchain := Some SOLANA,
                                                    data_publicKey := Some ''ACCOUNT-W'' \<rparr>) \<rparr>"
      and d' = "no_fields\<lparr> data_blockchain := Some SOLANA,
                           data_publicKey := Some ''ACCOUNT-W'' \<rparr>"]
  by (simp add: reading_defs wallet_updated_message_def plugin_url_updated_message_def
        plugin_key_message_def page_defs state_of_def)

text \<open>
  C7 as the specification states it fails: inside a host, the account-updated
  notification of the plugin channel arrives with a payload that names Ethereum. The
  session is rebound to the key it carries and a public event is emitted.
\<close>

theorem plugin_key_update_is_not_filtered:
  "accepted page_env (plugin_key_message ETHEREUM ''0xabc'')
   \<and> Option.bind (Option.bind (detail_of (plugin_key_message ETHEREUM ''0xabc'')) detail_data)
        data_blockchain = Some ETHEREUM
   \<and> publicKey embedded_session = Some (PublicKey ''ACCOUNT-X'')
   \<and> publicKey (state_of (handleNotification page_env embedded_session
        (plugin_key_message ETHEREUM ''0xabc''))) = Some (RawKey ''0xabc'')
   \<and> map fst (public_events (effects_of (handleNotification page_env embedded_session
        (plugin_key_message ETHEREUM ''0xabc'')))) = [''publicKeyUpdate'']"
  by (simp add: reading_defs plugin_key_message_def page_defs embedded_session_eq
        handleNotification_def handlePluginPublicKeyUpdated_def result_defs
        public_events_def)

subsection \<open>Connecting twice\<close>

text \<open>
  C9. \<open>connect()\<close> on a session whose \<open>isConnected\<close> is true returns normally, its
  whole trace is the one console warning (no request goes to the trusted side), and no
  field changes; so calling it again is the same no-op.
\<close>

theorem connect_when_connected_is_noop:
  assumes "isConnected st"
  shows "connect e st aw = (Returns (), st, [Warn ''provider already connected''])
         \<and> connect e (state_of (connect e st aw)) aw' = connect e st aw"
  using assms by (simp add: connect_def state_of_def)

theorem connect_when_connected_is_noop_witness:
  "isConnected standalone_session
   \<and> connect page_env standalone_session user_approves =
       (Returns (), standalone_session, [Warn ''provider already connected''])"
  using connect_when_connected_is_noop [of standalone_session page_env user_approves
      user_approves]
  by (simp add: standalone_session_eq)

subsection \<open>Disconnecting\<close>




subsection \<open>Two places where a handler stops short\<close>

text \<open>
  C2 at a concrete session. The standalone session, bound to ACCOUNT-X, receives the
  disconnected notification: the flag is false and the connection is the default one
  again, but the account is still bound. (The \<open>disconnect()\<close> method, above, clears
  it.)
\<close>

theorem disconnected_notification_keeps_account:
  "outcome_of (handleNotification page_env standalone_session disconnected_message) = Returns ()
   \<and> \<not> isConnected (state_of (handleNotification page_env standalone_session
                                  disconnected_message))
   \<and> connection (state_of (handleNotification page_env standalone_session
                              disconnected_message)) = defaultConnection page_env
   \<and> publicKey (state_of (handleNotification page_env standalone_session
                             disconnected_message)) = Some (PublicKey ''ACCOUNT-X'')"
  by (simp add: standalone_session_eq page_defs handleNotification_def handler_defs
        result_defs)

lemma moved_session_eq:
  "moved_session =
     \<lparr> isBackpack = True, isConnected = True, isXnft = None,
       publicKey = Some (PublicKey ''ACCOUNT-X''),
       connection = BackgroundSolanaConnection (Some ''https://rpc-1.example''),
       secureSolanaClient = SolanaClient (Connection ''https://rpc-2.example''),
       secureClientOrigin =
         \<lparr> origin_context = ''browser'', origin_name = ''dapp'',
           origin_address = ''https://dapp.example'' \<rparr> \<rparr>"
  by (simp add: moved_session_def standalone_session_eq page_defs handleNotification_def
        handler_defs result_defs)

text \<open>
  C8 at a concrete session. The standalone session was bound to rpc-1 when the
  extension announced rpc-2 for Solana. The next \<open>send\<close> goes through a client on
  rpc-2; the next \<open>simulate\<close>, called without a connection of its own, still goes to
  rpc-1, because the handler rebuilt the client and left \<open>#connection\<close> as it was.
\<close>

theorem simulate_after_url_update_uses_old_endpoint:
  "effects_of (send page_env moved_session ''tx'' None None None None
                 user_declines signature_arrives) =
     [ClientCall (SolanaClient (Connection ''https://rpc-2.example''))
        (Send (PublicKey ''ACCOUNT-X'') ''tx'' None None None)]
   \<and> effects_of (simulate page_env moved_session ''tx'' None None None None
                    user_declines signature_arrives) =
     [CmnSimulate (PublicKey ''ACCOUNT-X'')
        (BackgroundSolanaConnection (Some ''https://rpc-1.example'')) ''tx'' None None]"
  by (simp add: moved_session_eq send_def simulate_def method_defs result_defs
        user_declines_def signature_arrives_def)

subsection \<open>The context kind\<close>












lemma forget_effects: "effects_of (forget r) = effects_of r"
  by (simp add: forget_def effects_of_def state_of_def)

lemmas guarded_method_defs =
  sendAndConfirm_def send_def simulate_def signTransaction_def signAllTransactions_def
  signMessage_def






subsection \<open>What a trace can hold\<close>

lemma dispatch_trace: "list_all from_listener (snd (snd (dispatch e st dt n)))"
  by (cases n) (auto simp: handler_defs Let_def split: option.splits sum.splits)

lemma handleNotification_trace:
  "list_all from_listener (effects_of (handleNotification e st ev))"
  by (simp add: handleNotification_def effects_of_def split_beta dispatch_trace
        split: option.splits)

lemma deliver_Cons_trace:
  "snd (deliver e st (ev # evs)) =
     effects_of (handleNotification e st ev)
     @ snd (deliver e (state_of (handleNotification e st ev)) evs)"
  by (simp add: state_of_def effects_of_def split_beta)

lemma deliver_trace: "list_all from_listener (snd (deliver e st evs))"
proof (induction evs arbitrary: st)
  case Nil
  show ?case by simp
next
  case (Cons ev evs)
  show ?case
    unfolding deliver_Cons_trace
    using handleNotification_trace [of e st ev] Cons.IH by simp
qed

lemma from_listener_silent:
  "from_listener x \<Longrightarrow> \<not> is_connect_attempt x \<and> \<not> is_dispatch x \<and> carried_key x = None"
  by (cases x) simp_all

lemma listener_trace_silent:
  assumes "list_all from_listener fx"
  shows "filter is_connect_attempt fx = []"
    and "filter is_dispatch fx = []"
    and "List.map_filter carried_key fx = []"
  using assms by (induction fx) (auto dest: from_listener_silent)

lemmas deliver_silent = listener_trace_silent [OF deliver_trace]

lemma carried_keys_append: "carried_keys (xs @ ys) = carried_keys xs @ carried_keys ys"
  by (simp add: carried_keys_def List.map_filter_def)

lemma carried_keys_Nil: "carried_keys [] = []"
  by (simp add: carried_keys_def)

lemma carried_keys_Cons:
  "carried_keys (x # xs) =
     (case carried_key x of None \<Rightarrow> [] | Some k \<Rightarrow> [k]) @ carried_keys xs"
  by (simp add: carried_keys_def split: option.splits)

lemma carried_keys_deliver: "carried_keys (snd (deliver e st evs)) = []"
  by (simp add: carried_keys_def deliver_silent)

subsection \<open>The lazy connect of the guarded methods\<close>

lemma connect_effects:
  "effects_of (connect e st aw) =
     (if isConnected st then [Warn ''provider already connected'']
      else (if isXnft st = Some True then [Warn ''xnft already connected''] else [])
           @ ClientConnect (secureSolanaClient st) # snd (deliver e st (fst aw)))"
  by (simp add: connect_def suspend_def effects_of_def split_beta Let_def
        split: settled.splits)

lemma connect_attempts_connect: "connect_attempts (effects_of (connect e st aw)) = 1"
  by (simp add: connect_effects connect_attempts_def deliver_silent)

lemma dispatched_connect: "dispatched (effects_of (connect e st aw)) = []"
  by (simp add: connect_effects dispatched_def deliver_silent)

lemma carried_keys_connect: "carried_keys (effects_of (connect e st aw)) = []"
  by (simp add: connect_effects carried_keys_append carried_keys_Cons carried_keys_Nil
        carried_keys_deliver)

text \<open>A guarded method on a session with no account: it starts with \<open>connect()\<close>.\<close>

lemma guarded_unbound:
  assumes "\<not> truthy (publicKey st)"
  shows "guarded e st awc call awo =
     (case outcome_of (connect e st awc) of
        Throws err \<Rightarrow> (Throws err, state_of (connect e st awc), effects_of (connect e st awc))
      | Returns _ \<Rightarrow>
          (case publicKey (state_of (connect e st awc)) of
             None \<Rightarrow>
               (Throws not_connected, state_of (connect e st awc), effects_of (connect e st awc))
           | Some k \<Rightarrow>
               if \<not> truthy (Some k)
               then (Throws not_connected, state_of (connect e st awc),
                     effects_of (connect e st awc))
               else (outcome_of (suspend e (state_of (connect e st awc)) awo),
                     fst (deliver e (state_of (connect e st awc)) (fst awo)),
                     effects_of (connect e st awc)
                     @ call (state_of (connect e st awc)) k
                     # snd (deliver e (state_of (connect e st awc)) (fst awo)))))"
  using assms
  by (cases "connect e st awc")
     (auto simp: guarded_def lazy_connect_def suspend_def result_defs split_beta
        split: outcome.splits option.splits)

text \<open>A guarded method on a session with an account: it goes straight to its request.\<close>

lemma guarded_bound:
  assumes "publicKey st = Some k" and "truthy (Some k)"
  shows "guarded e st awc call awo =
     (outcome_of (suspend e st awo), fst (deliver e st (fst awo)),
      call st k # snd (deliver e st (fst awo)))"
  using assms
  by (simp add: guarded_def lazy_connect_def suspend_def result_defs split_beta)

lemma guarded_unbound_attempts:
  assumes "\<not> truthy (publicKey st)" and "\<And>s k. \<not> is_connect_attempt (call s k)"
  shows "connect_attempts (effects_of (guarded e st awc call awo)) = 1"
proof -
  have c: "filter is_connect_attempt (effects_of (connect e st awc)) \<noteq> []
      \<and> length (filter is_connect_attempt (effects_of (connect e st awc))) = 1"
    using connect_attempts_connect [of e st awc] by (auto simp: connect_attempts_def)
  show ?thesis
    unfolding guarded_unbound [OF assms(1)]
    using c assms(2)
    by (simp add: connect_attempts_def effects_of_def deliver_silent
          split: outcome.splits option.splits)
qed

lemma guarded_unbound_fails:
  assumes "\<not> truthy (publicKey st)"
    and "\<not> truthy (publicKey (state_of (connect e st awc)))"
  shows "guarded e st awc call awo =
     (Throws (case outcome_of (connect e st awc) of
                Throws err \<Rightarrow> err | Returns _ \<Rightarrow> not_connected),
      state_of (connect e st awc), effects_of (connect e st awc))"
  unfolding guarded_unbound [OF assms(1)]
  using assms(2) by (auto split: outcome.splits option.splits)

lemma invoke_unbound_attempts:
  assumes "\<not> truthy (publicKey st)"
  shows "connect_attempts (effects_of (invoke e st awc op)) = 1"
  using assms
  by (cases op) (simp_all add: forget_effects guarded_method_defs guarded_unbound_attempts)

lemma invoke_unbound_fails:
  assumes "\<not> truthy (publicKey st)"
    and "\<not> truthy (publicKey (state_of (connect e st awc)))"
  shows "invoke e st awc op =
     (Throws (case outcome_of (connect e st awc) of
                Throws err \<Rightarrow> err | Returns _ \<Rightarrow> not_connected),
      state_of (connect e st awc), effects_of (connect e st awc))"
  using assms
  by (cases op)
     (simp_all add: guarded_method_defs guarded_unbound_fails forget_def result_defs)

text \<open>
  C4, as the code has it. A guarded method called while no account is bound calls
  \<open>connect()\<close> exactly once. If no account is bound after that call, the method fails
  and dispatches nothing: with the error \<open>wallet not connected\<close> when \<open>connect()\<close>
  returned, and with the error of \<open>connect()\<close> itself (the trusted side's rejection, or
  what a constructor threw) when \<open>connect()\<close> failed.
\<close>

theorem lazy_connect_once:
  assumes "\<not> truthy (publicKey st)"
  shows "connect_attempts (effects_of (invoke e st awc op)) = 1
     \<and> (\<not> truthy (publicKey (state_of (connect e st awc))) \<longrightarrow>
          dispatched (effects_of (invoke e st awc op)) = []
          \<and> state_of (invoke e st awc op) = state_of (connect e st awc)
          \<and> outcome_of (invoke e st awc op) =
              Throws (case outcome_of (connect e st awc) of
                        Throws err \<Rightarrow> err | Returns _ \<Rightarrow> not_connected))"
proof (intro conjI impI)
  show "connect_attempts (effects_of (invoke e st awc op)) = 1"
    using assms by (rule invoke_unbound_attempts)
next
  assume n: "\<not> truthy (publicKey (state_of (connect e st awc)))"
  note eq = invoke_unbound_fails [OF assms n, of op]
  show "dispatched (effects_of (invoke e st awc op)) = []"
    using dispatched_connect [of e st awc] by (simp add: eq effects_of_def)
  show "state_of (invoke e st awc op) = state_of (connect e st awc)"
    by (simp add: eq state_of_def)
  show "outcome_of (invoke e st awc op) =
      Throws (case outcome_of (connect e st awc) of
                Throws err \<Rightarrow> err | Returns _ \<Rightarrow> not_connected)"
    by (simp add: eq outcome_of_def)
qed

theorem lazy_connect_once_witness:
  "\<not> truthy (publicKey keyless_session)
   \<and> \<not> truthy (publicKey (state_of (connect page_env keyless_session user_approves)))
   \<and> connect_attempts (effects_of (invoke page_env keyless_session user_approves
        (OpSignMessage [104, 105] None ([], Resolved [1, 2, 3])))) = 1
   \<and> dispatched (effects_of (invoke page_env keyless_session user_approves
        (OpSignMessage [104, 105] None ([], Resolved [1, 2, 3])))) = []
   \<and> outcome_of (invoke page_env keyless_session user_approves
        (OpSignMessage [104, 105] None ([], Resolved [1, 2, 3]))) = Throws not_connected"
  using lazy_connect_once [of keyless_session page_env user_approves
      "OpSignMessage [104, 105] None ([], Resolved [1, 2, 3])"]
  by (simp add: keyless_session_eq connect_def result_defs)

text \<open>
  C4 as the specification states it fails: \<open>send\<close> on a fresh provider, the user
  declining the connection. One connect attempt is made and no account is bound
  afterwards, yet the method fails with the trusted side's rejection, not with
  \<open>wallet not connected\<close>.
\<close>

theorem declined_connect_is_not_not_connected:
  "\<not> truthy (publicKey fresh_session)
   \<and> \<not> truthy (publicKey (state_of (send page_env fresh_session ''tx'' None None None None
                                      user_declines signature_arrives)))
   \<and> outcome_of (send page_env fresh_session ''tx'' None None None None
                    user_declines signature_arrives) = Throws (Rejection ''user declined'')
   \<and> Throws (Rejection ''user declined'') \<noteq> (Throws not_connected :: string outcome)"
  by (simp add: page_defs send_def method_defs result_defs user_declines_def
        signature_arrives_def not_connected_def)

subsection \<open>The key a request carries\<close>

lemma connect_binds:
  assumes "\<not> isConnected st" and "PublicKey_accepts e pk"
    and "BackgroundSolanaConnection_accepts e (Some url)"
  shows "outcome_of (connect e st (during, Resolved (pk, url))) = Returns ()
     \<and> publicKey (state_of (connect e st (during, Resolved (pk, url)))) = Some (PublicKey pk)"
  using assms
  by (simp add: connect_def suspend_def handler_defs result_defs split_beta Let_def)

lemma guarded_bound_keys:
  assumes "publicKey st = Some k" and "truthy (Some k)"
  shows "carried_keys (effects_of (guarded e st awc call awo)) = carried_keys [call st k]"
  by (simp add: guarded_bound [OF assms] effects_of_def carried_keys_Cons carried_keys_Nil
        carried_keys_deliver)

lemma guarded_lazily_bound_keys:
  assumes "\<not> truthy (publicKey st)" and "\<not> isConnected st" and "PublicKey_accepts e pk"
    and "BackgroundSolanaConnection_accepts e (Some url)"
  shows "carried_keys (effects_of (guarded e st (during, Resolved (pk, url)) call awo)) =
     carried_keys [call (state_of (connect e st (during, Resolved (pk, url)))) (PublicKey pk)]"
  unfolding guarded_unbound [OF assms(1)]
  using connect_binds [OF assms(2-4), of during]
  by (simp add: effects_of_def [of "(a, b, c)" for a b c] carried_keys_append carried_keys_Cons
        carried_keys_Nil carried_keys_deliver carried_keys_connect)

lemma guarded_keys_cases:
  "carried_keys (effects_of (guarded e st awc call awo)) = []
   \<or> (\<exists>s k. carried_keys (effects_of (guarded e st awc call awo)) = carried_keys [call s k])"
proof (cases "truthy (publicKey st)")
  case True
  then obtain k where k: "publicKey st = Some k" by (cases "publicKey st") auto
  with True have "truthy (Some k)" by simp
  with k show ?thesis using guarded_bound_keys [of st k e awc call awo] by blast
next
  case False
  note g = guarded_unbound [OF False, of e awc call awo]
  show ?thesis
  proof (cases "outcome_of (connect e st awc)")
    case (Throws err)
    with g have "effects_of (guarded e st awc call awo) = effects_of (connect e st awc)"
      by (simp add: effects_of_def [of "(a, b, c)" for a b c])
    then show ?thesis by (simp add: carried_keys_connect)
  next
    case (Returns u)
    show ?thesis
    proof (cases "truthy (publicKey (state_of (connect e st awc)))")
      case False
      with g Returns
      have "effects_of (guarded e st awc call awo) = effects_of (connect e st awc)"
        by (auto simp: effects_of_def [of "(a, b, c)" for a b c] split: option.splits)
      then show ?thesis by (simp add: carried_keys_connect)
    next
      case True
      then obtain k where k: "publicKey (state_of (connect e st awc)) = Some k"
        by (cases "publicKey (state_of (connect e st awc))") auto
      with True g Returns
      have "effects_of (guarded e st awc call awo) =
          effects_of (connect e st awc) @ call (state_of (connect e st awc)) k
          # snd (deliver e (state_of (connect e st awc)) (fst awo))"
        by (simp add: effects_of_def [of "(a, b, c)" for a b c])
      then have "carried_keys (effects_of (guarded e st awc call awo)) =
          carried_keys [call (state_of (connect e st awc)) k]"
        by (simp add: carried_keys_append carried_keys_Cons carried_keys_Nil
              carried_keys_deliver carried_keys_connect)
      then show ?thesis by blast
    qed
  qed
qed

lemma invoke_keys_cases:
  "carried_keys (effects_of (invoke e st awc op)) = []
   \<or> (\<exists>k. carried_keys (effects_of (invoke e st awc op)) = [nullish (supplied_key op) k])"
proof (cases op)
  case (OpSendAndConfirm tx sgs opts conn pk awo)
  show ?thesis
    using guarded_keys_cases [of e st awc
        "\<lambda>st1 k. ClientCall (secureSolanaClient st1)
                   (SendAndConfirm (nullish pk k) tx sgs opts conn)" awo]
    by (simp add: OpSendAndConfirm forget_effects sendAndConfirm_def carried_keys_Cons
          carried_keys_Nil)
next
  case (OpSend tx sgs opts conn pk awo)
  show ?thesis
    using guarded_keys_cases [of e st awc
        "\<lambda>st1 k. ClientCall (secureSolanaClient st1) (Send (nullish pk k) tx sgs opts conn)"
        awo]
    by (simp add: OpSend forget_effects send_def carried_keys_Cons carried_keys_Nil)
next
  case (OpSimulate tx sgs cmt conn pk awo)
  show ?thesis
    using guarded_keys_cases [of e st awc
        "\<lambda>st1 k. CmnSimulate (nullish pk k) (nullish conn (connection st1)) tx sgs cmt" awo]
    by (simp add: OpSimulate forget_effects simulate_def carried_keys_Cons carried_keys_Nil)
next
  case (OpSignTransaction tx pk conn awo)
  show ?thesis
    using guarded_keys_cases [of e st awc
        "\<lambda>st1 k. ClientCall (secureSolanaClient st1) (SignTransaction (nullish pk k) tx conn)"
        awo]
    by (simp add: OpSignTransaction forget_effects signTransaction_def carried_keys_Cons
          carried_keys_Nil)
next
  case (OpSignAllTransactions txs pk conn awo)
  show ?thesis
    using guarded_keys_cases [of e st awc
        "\<lambda>st1 k. ClientCall (secureSolanaClient st1)
                   (SignAllTransactions (nullish pk k) txs conn)" awo]
    by (simp add: OpSignAllTransactions forget_effects signAllTransactions_def
          carried_keys_Cons carried_keys_Nil)
next
  case (OpSignMessage msg pk awo)
  show ?thesis
    using guarded_keys_cases [of e st awc
        "\<lambda>st1 k. ClientCall (secureSolanaClient st1) (SignMessage (nullish pk k) msg)" awo]
    by (simp add: OpSignMessage forget_effects signMessage_def carried_keys_Cons
          carried_keys_Nil)
qed

text \<open>
  C10. Each of the six guarded methods takes an optional \<open>publicKey\<close>. The one request
  the method dispatches carries the caller's key when the caller gave one, and the
  session's account when it gave none: on a session with an account, and on a session
  without one that the lazy \<open>connect()\<close> has just bound to the account the trusted side
  answered. And from any session at all, a call that gives a key dispatches nothing or
  one request with that key.
\<close>

theorem supplied_key_is_carried:
  "(publicKey st = Some k \<and> truthy (Some k) \<longrightarrow>
      carried_keys (effects_of (invoke e st awc op)) = [nullish (supplied_key op) k])
   \<and> (\<not> truthy (publicKey st') \<and> \<not> isConnected st' \<and> PublicKey_accepts e pk
        \<and> BackgroundSolanaConnection_accepts e (Some url) \<longrightarrow>
      carried_keys (effects_of (invoke e st' (during, Resolved (pk, url)) op)) =
        [nullish (supplied_key op) (PublicKey pk)])
   \<and> (supplied_key op = Some p \<longrightarrow>
      carried_keys (effects_of (invoke e st'' awc'' op)) = []
      \<or> carried_keys (effects_of (invoke e st'' awc'' op)) = [p])"
proof (intro conjI impI)
  assume "supplied_key op = Some p"
  then show "carried_keys (effects_of (invoke e st'' awc'' op)) = []
      \<or> carried_keys (effects_of (invoke e st'' awc'' op)) = [p]"
    using invoke_keys_cases [of e st'' awc'' op] by auto
next
  assume "publicKey st = Some k \<and> truthy (Some k)"
  then show "carried_keys (effects_of (invoke e st awc op)) = [nullish (supplied_key op) k]"
    by (cases op)
       (simp_all add: forget_effects guarded_method_defs guarded_bound_keys carried_keys_Cons
          carried_keys_Nil)
next
  assume "\<not> truthy (publicKey st') \<and> \<not> isConnected st' \<and> PublicKey_accepts e pk
      \<and> BackgroundSolanaConnection_accepts e (Some url)"
  then show "carried_keys (effects_of (invoke e st' (during, Resolved (pk, url)) op)) =
      [nullish (supplied_key op) (PublicKey pk)]"
    by (cases op)
       (simp_all add: forget_effects guarded_method_defs guarded_lazily_bound_keys
          carried_keys_Cons carried_keys_Nil)
qed

theorem supplied_key_is_carried_witness:
  "carried_keys (effects_of (invoke page_env standalone_session user_declines
      (OpSend ''tx'' None None None (Some (PublicKey ''ACCOUNT-Z'')) signature_arrives))) =
     [PublicKey ''ACCOUNT-Z'']
   \<and> carried_keys (effects_of (invoke page_env standalone_session user_declines
      (OpSend ''tx'' None None None None signature_arrives))) = [PublicKey ''ACCOUNT-X'']
   \<and> carried_keys (effects_of (invoke page_env fresh_session user_approves
      (OpSimulate ''tx'' None None None None signature_arrives))) = [PublicKey ''ACCOUNT-Y'']"
  using supplied_key_is_carried [where st = standalone_session
      and k = "PublicKey ''ACCOUNT-X''" and e = page_env and awc = user_declines
      and op = "OpSend ''tx'' None None None (Some (PublicKey ''ACCOUNT-Z'')) signature_arrives"
      and st' = fresh_session and pk = "''ACCOUNT-Y''" and url = "''https://rpc-3.example''"
      and during = "[]" and p = "PublicKey ''ACCOUNT-Z''" and st'' = standalone_session
      and awc'' = user_declines]
    supplied_key_is_carried [where st = standalone_session
      and k = "PublicKey ''ACCOUNT-X''" and e = page_env and awc = user_declines
      and op = "OpSend ''tx'' None None None None signature_arrives"
      and st' = fresh_session and pk = "''ACCOUNT-Y''" and url = "''https://rpc-3.example''"
      and during = "[]" and p = "PublicKey ''ACCOUNT-Z''" and st'' = standalone_session
      and awc'' = user_declines]
    supplied_key_is_carried [where st = standalone_session
      and k = "PublicKey ''ACCOUNT-X''" and e = page_env and awc = user_declines
      and op = "OpSimulate ''tx'' None None None None signature_arrives"
      and st' = fresh_session and pk = "''ACCOUNT-Y''" and url = "''https://rpc-3.example''"
      and during = "[]" and p = "PublicKey ''ACCOUNT-Z''" and st'' = standalone_session
      and awc'' = user_declines]
  by (simp add: standalone_session_eq page_defs user_approves_def)

end
